theory Spec2Isabelle
  imports Main "HOL-Library.Sublist"
begin

section \<open>Python text primitives used by setup.py\<close>

text \<open>
  A Python \<open>str\<close> is modelled as a \<^typ>\<open>string\<close>; a character stands for the code point
  of the same number, so the model covers text whose code points are below 256. On that
  range the character classes below are the ones CPython uses for \<open>str\<close>.
\<close>

definition quote :: char where
  "quote = CHR 0x22"

definition LF :: char where
  "LF = CHR 0x0A"

definition CR :: char where
  "CR = CHR 0x0D"

text \<open>\<open>\d\<close> of the \<open>re\<close> module on code points below 256: the ASCII digits.\<close>

definition is_digit :: "char \<Rightarrow> bool" where
  "is_digit c = (c \<in> set ''0123456789'')"

text \<open>\<open>str.isspace\<close> on code points below 256, the characters \<open>str.strip()\<close> removes.\<close>

definition is_space :: "char \<Rightarrow> bool" where
  "is_space c = (c \<in> set [CHR 0x09, CHR 0x0A, CHR 0x0B, CHR 0x0C, CHR 0x0D,
                           CHR 0x1C, CHR 0x1D, CHR 0x1E, CHR 0x1F, CHR 0x20,
                           CHR 0x85, CHR 0xA0])"

text \<open>The line boundaries of \<open>str.splitlines\<close> on code points below 256.\<close>

definition is_linebreak :: "char \<Rightarrow> bool" where
  "is_linebreak c = (c \<in> set [CHR 0x0A, CHR 0x0B, CHR 0x0C, CHR 0x0D,
                               CHR 0x1C, CHR 0x1D, CHR 0x1E, CHR 0x85])"

text \<open>\<open>s.strip()\<close>: whitespace removed at both ends.\<close>

definition strip :: "string \<Rightarrow> string" where
  "strip s = rev (dropWhile is_space (rev (dropWhile is_space s)))"

text \<open>\<open>s.startswith(p)\<close>.\<close>

definition startswith :: "string \<Rightarrow> string \<Rightarrow> bool" where
  "startswith s p = prefix p s"

text \<open>
  \<open>s.split(sep)\<close> for a separator of one character: cut at every occurrence, so the
  result has one more entry than \<open>s\<close> has separators; \<open>''''.split(sep)\<close> is \<open>['''']\<close>.
\<close>

function split_on :: "char \<Rightarrow> string \<Rightarrow> string list" where
  "split_on sep s =
     (case dropWhile (\<lambda>c. c \<noteq> sep) s of
        [] \<Rightarrow> [s]
      | _ # rest \<Rightarrow> takeWhile (\<lambda>c. c \<noteq> sep) s # split_on sep rest)"
  by pat_completeness auto
termination
proof (relation "measure (\<lambda>(sep, s). length s)")
  show "wf (measure (\<lambda>(sep, s). length s))" by simp
next
  fix sep :: char and s :: string and x rest
  assume "dropWhile (\<lambda>c. c \<noteq> sep) s = x # rest"
  then have "Suc (length rest) \<le> length s"
    using length_dropWhile_le [of "\<lambda>c. c \<noteq> sep" s] by simp
  then show "((sep, rest), (sep, s)) \<in> measure (\<lambda>(sep, s). length s)" by simp
qed

declare split_on.simps [simp del]

text \<open>\<open>sep.join(xs)\<close>.\<close>

fun str_join :: "string \<Rightarrow> string list \<Rightarrow> string" where
  "str_join sep [] = []"
| "str_join sep [x] = x"
| "str_join sep (x # y # ys) = x @ sep @ str_join sep (y # ys)"

text \<open>\<open>sub in s\<close> for strings.\<close>

fun contains :: "string \<Rightarrow> string \<Rightarrow> bool" where
  "contains sub [] = (sub = [])"
| "contains sub (c # s) = (prefix sub (c # s) \<or> contains sub s)"

datatype error =
    AssertionError string
  | RuntimeError string
  | KeyError string
  | IndexError
  | FileNotFoundError string
  | IsADirectoryError string
  | NotADirectoryError string

section \<open>BlasHelper\<close>

text \<open>
  The result of \<open>nps.get_info('lapack_opt')\<close>: a dictionary, here an association list from
  keys to lists of strings (the two entries read are lists of strings), or \<open>None\<close>. It is
  falsy when it is \<open>None\<close> or empty.
\<close>

type_synonym blas_info = "(string \<times> string list) list option"

definition truthy_info :: "blas_info \<Rightarrow> bool" where
  "truthy_info info = (case info of None \<Rightarrow> False | Some d \<Rightarrow> d \<noteq> [])"

definition getitem :: "blas_info \<Rightarrow> string \<Rightarrow> error + string list" where
  "getitem info k =
     (case info of
        None \<Rightarrow> Inl (KeyError k)
      | Some d \<Rightarrow> (case map_of d k of None \<Rightarrow> Inl (KeyError k) | Some v \<Rightarrow> Inr v))"

definition no_blas_msg :: string where
  "no_blas_msg = ''No BLAS/LAPACK library is found, need to install BLAS.''"

definition no_blas_dir_msg :: string where
  "no_blas_dir_msg = ''No BLAS/LAPACK library directory is found, need to install BLAS.''"

text \<open>\<open>BlasHelper.get_blas_lib_dir\<close> (lines 87 to 101), given what \<open>get_info\<close> returned.\<close>

definition get_blas_lib_dir :: "blas_info \<Rightarrow> error + (string list \<times> string list)" where
  "get_blas_lib_dir blas_info =
     (if \<not> truthy_info blas_info then Inl (AssertionError no_blas_msg)
      else case getitem blas_info ''libraries'' of
        Inl e \<Rightarrow> Inl e
      | Inr blas_lib \<Rightarrow>
          (case getitem blas_info ''library_dirs'' of
             Inl e \<Rightarrow> Inl e
           | Inr blas_dir \<Rightarrow>
               if blas_lib = [] then Inl (AssertionError no_blas_msg)
               else if blas_dir = [] then Inl (AssertionError no_blas_dir_msg)
               else Inr (blas_lib, blas_dir)))"

section \<open>Extra compile arguments and the extension module\<close>

text \<open>
  Lines 132 to 136: \<open>os.environ.get('PECOS_MANUAL_COMPILE_ARGS', default=None)\<close>, split at
  commas when it is truthy (set and not the empty string), the empty list otherwise.
\<close>

definition manual_compile_args :: "(string \<rightharpoonup> string) \<Rightarrow> string list" where
  "manual_compile_args environ =
     (case environ ''PECOS_MANUAL_COMPILE_ARGS'' of
        None \<Rightarrow> []
      | Some v \<Rightarrow> if v \<noteq> [] then split_on CHR '','' v else [])"

record extension =
  ext_name :: string
  sources :: "string list"
  include_dirs :: "string list"
  libraries :: "string list"
  library_dirs :: "string list"
  extra_compile_args :: "string list"
  extra_link_args :: "string list"

text \<open>Lines 139 to 147, as a function of the three module variables it reads.\<close>

definition ext_module :: "string list \<Rightarrow> string list \<Rightarrow> string list \<Rightarrow> extension" where
  "ext_module blas_lib blas_dir mca =
     \<lparr> ext_name = ''pecos.core.libpecos_float32'',
       sources = [''pecos/core/libpecos.cpp''],
       include_dirs = [''pecos/core'', ''/usr/include/'', ''/usr/local/include''],
       libraries = [''gomp'', ''gcc''] @ blas_lib,
       library_dirs = blas_dir,
       extra_compile_args = [''-fopenmp'', ''-O3'', ''-std=c++14''] @ mca,
       extra_link_args = [''-Wl,--no-as-needed'', ''-Wl,-rpath,'' @ str_join '':'' blas_dir] \<rparr>"

section \<open>The file system and the process environment\<close>

text \<open>
  What \<open>VersionHelper\<close> reads and changes: the working directory, the directory of the
  setup script (\<open>os.path.abspath(os.path.dirname(__file__))\<close>, an absolute path), the
  directories and the text files that exist (by absolute path), what
  \<open>git describe --tags --abbrev=0\<close> answers in the working directory (its return code and
  its decoded output), the warnings issued and the lines printed. Assertions are enabled
  and warnings are not turned into errors (Python's defaults); the platform is POSIX.
\<close>

record world =
  cwd :: string
  script_dir :: string
  dirs :: "string set"
  files :: "string \<rightharpoonup> string"
  git_returncode :: int
  git_stdout :: string
  warnings :: "string list"
  printed :: "string list"

text \<open>\<open>os.path.join(a, b)\<close> (posixpath), also how a relative path resolves against \<open>a\<close>.\<close>

definition path_join :: "string \<Rightarrow> string \<Rightarrow> string" where
  "path_join a b =
     (if startswith b ''/'' then b
      else if a = [] \<or> last a = CHR ''/'' then a @ b
      else a @ ''/'' @ b)"

text \<open>\<open>os.path.dirname(p)\<close> (posixpath).\<close>

definition dirname :: "string \<Rightarrow> string" where
  "dirname p =
     (let head = rev (dropWhile (\<lambda>c. c \<noteq> CHR ''/'') (rev p))
      in if head \<noteq> [] \<and> \<not> list_all (\<lambda>c. c = CHR ''/'') head
         then rev (dropWhile (\<lambda>c. c = CHR ''/'') (rev head))
         else head)"

definition isdir :: "world \<Rightarrow> string \<Rightarrow> bool" where
  "isdir w p = (path_join (cwd w) p \<in> dirs w)"

definition isfile :: "world \<Rightarrow> string \<Rightarrow> bool" where
  "isfile w p = (files w (path_join (cwd w) p) \<noteq> None)"

text \<open>
  \<open>open(p, "w")\<close> followed by one \<open>write\<close>: the file is created or replaced. It fails
  with \<open>NotADirectoryError\<close> when the directory part of the path is a regular file, with
  \<open>FileNotFoundError\<close> when it does not exist, and with \<open>IsADirectoryError\<close> when the path
  names a directory.
\<close>

definition write_text :: "world \<Rightarrow> string \<Rightarrow> string \<Rightarrow> error + world" where
  "write_text w p text =
     (let abs = path_join (cwd w) p
      in if dirname abs \<notin> dirs w then
           (if files w (dirname abs) \<noteq> None then Inl (NotADirectoryError p)
            else Inl (FileNotFoundError p))
         else if abs \<in> dirs w then Inl (IsADirectoryError p)
         else Inr (w\<lparr>files := (files w)(abs \<mapsto> text)\<rparr>))"

text \<open>Reading in text mode translates \<open>\r\n\<close> and \<open>\r\<close> to \<open>\n\<close>.\<close>

fun universal_newlines :: "string \<Rightarrow> string" where
  "universal_newlines [] = []"
| "universal_newlines [c] = [if c = CR then LF else c]"
| "universal_newlines (c # d # s) =
     (if c = CR \<and> d = LF then LF # universal_newlines s
      else if c = CR then LF # universal_newlines (d # s)
      else c # universal_newlines (d # s))"

definition read_text :: "world \<Rightarrow> string \<Rightarrow> error + string" where
  "read_text w p =
     (let abs = path_join (cwd w) p
      in case files w abs of
           Some text \<Rightarrow> Inr (universal_newlines text)
         | None \<Rightarrow> Inl (if abs \<in> dirs w then IsADirectoryError p else FileNotFoundError p))"

section \<open>The tag pattern\<close>

text \<open>
  \<open>re.match(r'v\d+.\d+.\d+', git_tag)\<close>: the pattern is a sequence of single characters
  and of one-or-more repetitions of a character class, matched from the start of the
  text; what follows the match is not looked at. The dot stands for any character but the
  newline. A repetition takes as many characters as it can and gives them back one by one.
\<close>

datatype atom = Lit char | Digit | AnyChar

datatype item = One atom | Many atom

fun atom_ok :: "atom \<Rightarrow> char \<Rightarrow> bool" where
  "atom_ok (Lit l) c = (c = l)"
| "atom_ok Digit c = is_digit c"
| "atom_ok AnyChar c = (c \<noteq> LF)"

fun re_match :: "item list \<Rightarrow> string \<Rightarrow> bool" where
  "re_match [] s = True"
| "re_match (One a # p) [] = False"
| "re_match (One a # p) (c # s) = (atom_ok a c \<and> re_match p s)"
| "re_match (Many a # p) [] = False"
| "re_match (Many a # p) (c # s) = (atom_ok a c \<and> (re_match (Many a # p) s \<or> re_match p s))"

definition tag_pattern :: "item list" where
  "tag_pattern =
     [One (Lit CHR ''v''), Many Digit, One AnyChar, Many Digit, One AnyChar, Many Digit]"

section \<open>VersionHelper\<close>

definition VERSION_FP :: string where
  "VERSION_FP = ''pecos/_version.py''"

definition VERSION_PY :: string where
  "VERSION_PY =
     [LF] @ ''# This file is automatically generated from Git version tag by running setup.''
     @ [LF] @ ''# Only distribution/installed packages contain this file.''
     @ [LF, LF] @ ''__version__ = '' @ [quote] @ ''%s'' @ [quote, LF]"

text \<open>
  \<open>template % v\<close> for a string \<open>v\<close> and a template with one \<open>%s\<close> and no other percent
  sign: the conversion is replaced by \<open>v\<close>.
\<close>

fun percent :: "string \<Rightarrow> string \<Rightarrow> string" where
  "percent [] v = []"
| "percent (c # t) v =
     (if c = CHR ''%'' \<and> take 1 t = ''s'' then v @ drop 1 t else c # percent t v)"

definition warn_msg :: string where
  "warn_msg = ''Unable to run retrieve version from git info, ''
     @ ''maybe not in a Git repository, or tag info missing? ''
     @ ''Will write dummy version 0.0.0 to '' @ VERSION_FP"

text \<open>
  Lines 36 to 48 of \<open>__update_version_py\<close>: the version from the tag, the dummy version
  when there is no \<open>.git\<close> directory or \<open>git describe\<close> fails, an assertion error when the
  tag does not match.
\<close>

definition git_version :: "world \<Rightarrow> error + string" where
  "git_version w =
     (if isdir w ''.git'' then
        if git_returncode w = 0 then
          (let git_tag = git_stdout w
           in if re_match tag_pattern git_tag
              then Inr (strip (drop (length ''v'') git_tag))
              else Inl (AssertionError (''We use tags like v0.1.0, but got '' @ git_tag)))
        else Inr ''0.0.0''
      else Inr ''0.0.0'')"

text \<open>
  \<open>__update_version_py\<close>: the outcome and the world it leaves. An error leaves the world
  as it was when the error was raised.
\<close>

definition update_version_py :: "world \<Rightarrow> (error + unit) \<times> world" where
  "update_version_py w =
     (case git_version w of
        Inl e \<Rightarrow> (Inl e, w)
      | Inr ver \<Rightarrow>
          (let w1 = (if ver = ''0.0.0'' then w\<lparr>warnings := warnings w @ [warn_msg]\<rparr> else w)
           in case write_text w1 VERSION_FP (percent VERSION_PY ver) of
                Inl e \<Rightarrow> (Inl e, w1)
              | Inr w2 \<Rightarrow>
                  if isfile w2 VERSION_FP
                  then (Inr (), w2\<lparr>printed := printed w2 @ [''Set version to '' @ ver]\<rparr>)
                  else (Inl (AssertionError (VERSION_FP @ '' does not exist.'')), w2)))"

text \<open>\<open>__read_version_file\<close>: the file under the directory of the setup script.\<close>

definition read_version_file :: "world \<Rightarrow> error + string" where
  "read_version_file w = read_text w (path_join (script_dir w) VERSION_FP)"

text \<open>\<open>str.splitlines()\<close>: \<open>\r\n\<close> is one boundary; no empty last line.\<close>

function splitlines :: "string \<Rightarrow> string list" where
  "splitlines s =
     (if s = [] then []
      else case dropWhile (\<lambda>c. \<not> is_linebreak c) s of
             [] \<Rightarrow> [s]
           | c # rest \<Rightarrow>
               takeWhile (\<lambda>c. \<not> is_linebreak c) s
               # splitlines (if c = CR \<and> take 1 rest = [LF] then drop 1 rest else rest))"
  by pat_completeness auto
termination
proof (relation "measure length")
  show "wf (measure length)" by simp
next
  fix s :: string and c rest
  assume "dropWhile (\<lambda>c. \<not> is_linebreak c) s = c # rest"
  then have "Suc (length rest) \<le> length s"
    using length_dropWhile_le [of "\<lambda>c. \<not> is_linebreak c" s] by simp
  then show "(if c = CR \<and> take 1 rest = [LF] then drop 1 rest else rest, s) \<in> measure length"
    by auto
qed

declare splitlines.simps [simp del]

text \<open>
  The loop of \<open>get_version\<close> over the lines (lines 76 to 81): the first line that starts
  with \<open>__version__\<close> decides; \<open>line.split(delim)[1]\<close> raises when the line has no delimiter.
\<close>

fun find_version :: "string list \<Rightarrow> error + string" where
  "find_version [] = Inl (RuntimeError ''Unable to find version string.'')"
| "find_version (line # rest) =
     (if startswith line ''__version__'' then
        (let delim = (if quote \<in> set line then quote else CHR 0x27);
             parts = split_on delim line
         in if 1 < length parts then Inr (parts ! 1) else Inl IndexError)
      else find_version rest)"

definition get_version :: "world \<Rightarrow> (error + string) \<times> world" where
  "get_version w =
     (case update_version_py w of
        (Inl e, w') \<Rightarrow> (Inl e, w')
      | (Inr u, w') \<Rightarrow>
          (case read_version_file w' of
             Inl e \<Rightarrow> (Inl e, w')
           | Inr text \<Rightarrow> (find_version (splitlines text), w')))"

section \<open>Auxiliary notions for the statements\<close>

text \<open>The comment lines of the generated file, up to the assignment.\<close>

definition header :: string where
  "header = [LF] @ ''# This file is automatically generated from Git version tag by running setup.''
     @ [LF] @ ''# Only distribution/installed packages contain this file.'' @ [LF, LF]"

text \<open>Where the writer's and the reader's path end up.\<close>

definition writer_path :: "world \<Rightarrow> string" where
  "writer_path w = path_join (cwd w) VERSION_FP"

definition reader_path :: "world \<Rightarrow> string" where
  "reader_path w = path_join (cwd w) (path_join (script_dir w) VERSION_FP)"

text \<open>
  The setting of a build: the working directory is an absolute path and is the directory
  of the setup script, the directory \<open>pecos\<close> exists there, and \<open>pecos/_version.py\<close> is not
  a directory.
\<close>

definition build_env :: "world \<Rightarrow> bool" where
  "build_env w =
     (startswith (cwd w) ''/'' \<and> script_dir w = cwd w
      \<and> dirname (writer_path w) \<in> dirs w
      \<and> writer_path w \<notin> dirs w)"

text \<open>A character that the reader's parse passes over inside the quoted value.\<close>

definition plain :: "char \<Rightarrow> bool" where
  "plain c = (\<not> is_linebreak c \<and> c \<noteq> quote)"

text \<open>
  A checkout at \<open>/repo\<close> with the package directory, built from its own directory, where
  \<open>git describe\<close> succeeds and prints \<open>out\<close>; and the same tree without \<open>.git\<close>.
\<close>

definition repo_world :: "string \<Rightarrow> world" where
  "repo_world out =
     \<lparr> cwd = ''/repo'', script_dir = ''/repo'',
       dirs = {''/repo/.git'', ''/repo/pecos''}, files = map_of [],
       git_returncode = 0, git_stdout = out, warnings = [], printed = [] \<rparr>"

definition sdist_world :: world where
  "sdist_world =
     \<lparr> cwd = ''/sdist'', script_dir = ''/sdist'',
       dirs = {''/sdist/pecos''}, files = map_of [],
       git_returncode = 128, git_stdout = [], warnings = [], printed = [] \<rparr>"

text \<open>
  A build started in \<open>/build\<close> for the setup script of \<open>/repo\<close>, which holds a version
  file of an earlier run.
\<close>

definition away_world :: world where
  "away_world =
     \<lparr> cwd = ''/build'', script_dir = ''/repo'',
       dirs = {''/build/pecos'', ''/repo/pecos''},
       files = map_of [(''/repo/pecos/_version.py'',
                        ''__version__ = '' @ [CHR 0x27] @ ''9.9.9'' @ [CHR 0x27, LF])],
       git_returncode = 128, git_stdout = [], warnings = [], printed = [] \<rparr>"

text \<open>The open for writing of \<open>pecos/_version.py\<close> in the working directory succeeds.\<close>

definition can_write :: "world \<Rightarrow> bool" where
  "can_write w = (case write_text w VERSION_FP [] of Inl e \<Rightarrow> False | Inr w' \<Rightarrow> True)"

text \<open>
  A build started in the checkout \<open>/build\<close>, tagged \<open>v1.2.3\<close>, for the setup script of
  \<open>/repo\<close>, which holds a version file of an earlier run.
\<close>

definition away_git_world :: world where
  "away_git_world =
     \<lparr> cwd = ''/build'', script_dir = ''/repo'',
       dirs = {''/build/.git'', ''/build/pecos'', ''/repo/pecos''},
       files = map_of [(''/repo/pecos/_version.py'',
                        ''__version__ = '' @ [CHR 0x27] @ ''9.9.9'' @ [CHR 0x27, LF])],
       git_returncode = 0, git_stdout = ''v1.2.3'' @ [LF], warnings = [], printed = [] \<rparr>"

text \<open>
  A checkout tagged \<open>v1.2.3\<close> and a tree without \<open>.git\<close>, each built from its own
  directory, in which the directory \<open>pecos\<close> does not exist.
\<close>

definition bare_repo_world :: world where
  "bare_repo_world =
     \<lparr> cwd = ''/repo'', script_dir = ''/repo'', dirs = {''/repo/.git''}, files = map_of [],
       git_returncode = 0, git_stdout = ''v1.2.3'' @ [LF], warnings = [], printed = [] \<rparr>"

definition bare_sdist_world :: world where
  "bare_sdist_world =
     \<lparr> cwd = ''/sdist'', script_dir = ''/sdist'', dirs = {}, files = map_of [],
       git_returncode = 128, git_stdout = [], warnings = [], printed = [] \<rparr>"

section \<open>Text lemmas\<close>
lemma percent_VERSION_PY:
  "percent VERSION_PY v = header @ ''__version__ = '' @ [quote] @ v @ [quote, LF]"
  by (simp add: VERSION_PY_def header_def LF_def quote_def)

lemma splitlines_Nil: "splitlines [] = []"
  by (simp add: splitlines.simps)

lemma splitlines_line:
  assumes "list_all (\<lambda>c. \<not> is_linebreak c) a"
  shows "splitlines (a @ LF # r) = a # splitlines r"
proof -
  have lb: "is_linebreak LF" by (simp add: is_linebreak_def LF_def)
  have a: "\<And>x. x \<in> set a \<Longrightarrow> \<not> is_linebreak x" using assms by (simp add: list_all_iff)
  have d: "dropWhile (\<lambda>c. \<not> is_linebreak c) (a @ LF # r) = LF # r"
    using a lb by simp
  have t: "takeWhile (\<lambda>c. \<not> is_linebreak c) (a @ LF # r) = a"
    using a lb by simp
  have "LF \<noteq> CR" by (simp add: LF_def CR_def)
  then show ?thesis
    by (subst splitlines.simps) (simp add: d t)
qed

lemma splitlines_first:
  assumes "s \<noteq> []"
  shows "\<exists>rest. splitlines s = takeWhile (\<lambda>c. \<not> is_linebreak c) s # rest"
proof (cases "dropWhile (\<lambda>c. \<not> is_linebreak c) s")
  case Nil
  then have "takeWhile (\<lambda>c. \<not> is_linebreak c) s = s"
    by (metis append_Nil2 takeWhile_dropWhile_id)
  then have tw: "takeWhile (\<lambda>c. \<not> is_linebreak c) s = s" .
  have "splitlines s = [s]"
    using assms by (subst splitlines.simps, unfold Nil) simp
  then show ?thesis unfolding tw by simp
next
  case (Cons c rest)
  with assms show ?thesis by (subst splitlines.simps) simp
qed

lemma universal_newlines_append:
  "CR \<notin> set a \<Longrightarrow> universal_newlines (a @ r) = a @ universal_newlines r"
proof (induction a)
  case Nil
  then show ?case by simp
next
  case (Cons c a)
  then show ?case by (cases "a @ r") auto
qed

lemma takeWhile_universal_newlines:
  "\<not> P CR \<Longrightarrow> \<not> P LF \<Longrightarrow> takeWhile P (universal_newlines s) = takeWhile P s"
  by (induction s rule: universal_newlines.induct) auto

lemma split_on_cut:
  assumes "sep \<notin> set a"
  shows "split_on sep (a @ sep # r) = a # split_on sep r"
proof -
  have a: "\<And>x. x \<in> set a \<Longrightarrow> x \<noteq> sep" using assms by auto
  have "dropWhile (\<lambda>c. c \<noteq> sep) (a @ sep # r) = sep # r" using a by simp
  moreover have "takeWhile (\<lambda>c. c \<noteq> sep) (a @ sep # r) = a" using a by simp
  ultimately show ?thesis by (subst split_on.simps) simp
qed

lemma split_on_first:
  "\<exists>rest. split_on sep s = takeWhile (\<lambda>c. c \<noteq> sep) s # rest"
proof (cases "dropWhile (\<lambda>c. c \<noteq> sep) s")
  case Nil
  then have "takeWhile (\<lambda>c. c \<noteq> sep) s = s"
    by (metis append_Nil2 takeWhile_dropWhile_id)
  then have tw: "takeWhile (\<lambda>c. c \<noteq> sep) s = s" .
  have "split_on sep s = [s]"
    by (subst split_on.simps, unfold Nil) simp
  then show ?thesis unfolding tw by simp
next
  case (Cons c rest)
  then show ?thesis by (subst split_on.simps) simp
qed


lemma find_version_written:
  "find_version (splitlines (universal_newlines (percent VERSION_PY ver)))
     = Inr (takeWhile (\<lambda>c. \<not> is_linebreak c \<and> c \<noteq> quote) ver)"
proof -
  define T where "T = universal_newlines (ver @ [quote, LF])"
  define L where "L = ''__version__ = '' @ quote # takeWhile (\<lambda>c. \<not> is_linebreak c) T"
  have q: "\<not> is_linebreak quote" "quote \<noteq> CR" "quote \<noteq> LF"
    by (simp_all add: is_linebreak_def quote_def CR_def LF_def)
  have un: "universal_newlines (percent VERSION_PY ver)
      = header @ ''__version__ = '' @ quote # T"
    unfolding percent_VERSION_PY T_def
    using universal_newlines_append [of "header @ ''__version__ = '' @ [quote]" "ver @ [quote, LF]"]
    by (simp add: header_def CR_def LF_def quote_def)
  have l2: "list_all (\<lambda>c. \<not> is_linebreak c)
      ''# This file is automatically generated from Git version tag by running setup.''"
    by (simp add: is_linebreak_def)
  have l3: "list_all (\<lambda>c. \<not> is_linebreak c)
      ''# Only distribution/installed packages contain this file.''"
    by (simp add: is_linebreak_def)
  have lines: "splitlines (header @ ''__version__ = '' @ quote # T)
      = [] # ''# This file is automatically generated from Git version tag by running setup.''
        # ''# Only distribution/installed packages contain this file.''
        # [] # splitlines (''__version__ = '' @ quote # T)"
    unfolding header_def
    using splitlines_line [of "[]"] splitlines_line [OF l2] splitlines_line [OF l3]
    by simp
  have v: "list_all (\<lambda>c. \<not> is_linebreak c) ''__version__ = ''"
    by (simp add: is_linebreak_def)
  obtain rest where rest: "splitlines (''__version__ = '' @ quote # T) = L # rest"
    using splitlines_first [of "''__version__ = '' @ quote # T"] v q
    by (auto simp: L_def)
  have sw: "startswith L ''__version__''" by (simp add: L_def startswith_def)
  have qin: "quote \<in> set L" by (simp add: L_def)
  have nq: "quote \<notin> set ''__version__ = ''" by (simp add: quote_def)
  obtain more where more: "split_on quote L
      = ''__version__ = '' # takeWhile (\<lambda>c. c \<noteq> quote) (takeWhile (\<lambda>c. \<not> is_linebreak c) T) # more"
    using split_on_cut [OF nq, of "takeWhile (\<lambda>c. \<not> is_linebreak c) T"]
      split_on_first [of quote "takeWhile (\<lambda>c. \<not> is_linebreak c) T"]
    by (auto simp: L_def)
  have "takeWhile (\<lambda>c. c \<noteq> quote) (takeWhile (\<lambda>c. \<not> is_linebreak c) T)
      = takeWhile (\<lambda>c. \<not> is_linebreak c \<and> c \<noteq> quote) T"
    by (simp add: takeWhile_takeWhile)
  also have "\<dots> = takeWhile (\<lambda>c. \<not> is_linebreak c \<and> c \<noteq> quote) (ver @ [quote, LF])"
    unfolding T_def by (rule takeWhile_universal_newlines) (simp_all add: is_linebreak_def CR_def LF_def)
  also have "\<dots> = takeWhile (\<lambda>c. \<not> is_linebreak c \<and> c \<noteq> quote) ver"
    using takeWhile_tail [of "\<lambda>c. \<not> is_linebreak c \<and> c \<noteq> quote" quote ver "[LF]"] by simp
  finally have val: "split_on quote L
      = ''__version__ = '' # takeWhile (\<lambda>c. \<not> is_linebreak c \<and> c \<noteq> quote) ver # more"
    using more by simp
  have "find_version (L # rest) = Inr (takeWhile (\<lambda>c. \<not> is_linebreak c \<and> c \<noteq> quote) ver)"
    using sw qin val by simp
  moreover have "\<not> startswith [] ''__version__''"
    "\<not> startswith ''# This file is automatically generated from Git version tag by running setup.'' ''__version__''"
    "\<not> startswith ''# Only distribution/installed packages contain this file.'' ''__version__''"
    by (simp_all add: startswith_def)
  ultimately show ?thesis
    unfolding un lines rest by simp
qed

section \<open>The tag and the version\<close>

lemma re_match_many:
  assumes "a \<noteq> []" "list_all (atom_ok t) a" "re_match p s"
  shows "re_match (Many t # p) (a @ s)"
  using assms
proof (induction a)
  case Nil
  then show ?case by simp
next
  case (Cons x a)
  then show ?case by (cases a) auto
qed

lemma re_match_tag:
  assumes "a \<noteq> []" "list_all is_digit a" "b \<noteq> []" "list_all is_digit b"
    "c \<noteq> []" "list_all is_digit c"
  shows "re_match tag_pattern (CHR ''v'' # a @ ''.'' @ b @ ''.'' @ c @ sp)"
proof -
  have d: "\<And>x. list_all is_digit x \<Longrightarrow> list_all (atom_ok Digit) x"
    by (simp add: list_all_iff)
  have 3: "re_match [Many Digit] (c @ sp)"
    using re_match_many [of c Digit "[]" sp] assms d by simp
  have 2: "re_match [Many Digit, One AnyChar, Many Digit] (b @ ''.'' @ c @ sp)"
    using re_match_many [of b Digit "[One AnyChar, Many Digit]" "''.'' @ c @ sp"] assms d 3
    by (simp add: LF_def)
  have "re_match [Many Digit, One AnyChar, Many Digit, One AnyChar, Many Digit]
      (a @ ''.'' @ b @ ''.'' @ c @ sp)"
    using re_match_many [of a Digit "[One AnyChar, Many Digit, One AnyChar, Many Digit]"
        "''.'' @ b @ ''.'' @ c @ sp"] assms d 2
    by (simp add: LF_def)
  then show ?thesis by (simp add: tag_pattern_def)
qed

lemma strip_trailing:
  assumes "s \<noteq> []" "\<not> is_space (hd s)" "\<not> is_space (last s)" "list_all is_space sp"
  shows "strip (s @ sp) = s"
proof -
  have 1: "dropWhile is_space (s @ sp) = s @ sp"
    using assms(1,2) by (cases s) simp_all
  have "dropWhile is_space (rev sp @ rev s) = dropWhile is_space (rev s)"
    using assms(4) by (intro dropWhile_append2) (simp add: list_all_iff)
  also have "\<dots> = rev s"
    using assms(1,3) by (cases "rev s") (auto simp: hd_rev [symmetric])
  finally show ?thesis by (simp add: strip_def 1)
qed

lemma digit_not_space: "is_digit x \<Longrightarrow> \<not> is_space x"
  by (auto simp: is_digit_def is_space_def)

lemma digit_plain: "is_digit x \<Longrightarrow> \<not> is_linebreak x \<and> x \<noteq> quote"
  by (auto simp: is_digit_def is_linebreak_def quote_def)

lemma strip_version:
  assumes "a \<noteq> []" "list_all is_digit a" "c \<noteq> []" "list_all is_digit c" "list_all is_space sp"
  shows "strip (a @ ''.'' @ b @ ''.'' @ c @ sp) = a @ ''.'' @ b @ ''.'' @ c"
proof -
  have "\<not> is_space (hd a)" using assms(1,2) digit_not_space by (cases a) auto
  moreover have "\<not> is_space (last c)" using assms(3,4) digit_not_space
    by (metis last_in_set list_all_iff)
  ultimately show ?thesis
    using strip_trailing [of "a @ ''.'' @ b @ ''.'' @ c" sp] assms by simp
qed

lemma path_join_absolute:
  "startswith a ''/'' \<Longrightarrow> startswith (path_join a VERSION_FP) ''/''"
  by (cases a) (auto simp: path_join_def startswith_def VERSION_FP_def)

lemma path_join_id: "startswith b ''/'' \<Longrightarrow> path_join a b = b"
  by (simp add: path_join_def)

lemma update_version_py_ok:
  assumes "git_version w = Inr ver" "dirname (writer_path w) \<in> dirs w" "writer_path w \<notin> dirs w"
  shows "update_version_py w =
    (Inr (), w\<lparr>warnings := (if ver = ''0.0.0'' then warnings w @ [warn_msg] else warnings w),
              files := (files w)(writer_path w \<mapsto> percent VERSION_PY ver),
              printed := printed w @ [''Set version to '' @ ver]\<rparr>)"
  using assms
  by (simp add: update_version_py_def write_text_def isfile_def Let_def writer_path_def)

lemma get_version_same_path:
  assumes "reader_path w = writer_path w" "git_version w = Inr ver"
    "dirname (writer_path w) \<in> dirs w" "writer_path w \<notin> dirs w"
  shows "get_version w =
    (Inr (takeWhile plain ver),
     w\<lparr>warnings := (if ver = ''0.0.0'' then warnings w @ [warn_msg] else warnings w),
       files := (files w)(writer_path w \<mapsto> percent VERSION_PY ver),
       printed := printed w @ [''Set version to '' @ ver]\<rparr>)"
proof -
  have u: "update_version_py w =
    (Inr (), w\<lparr>warnings := (if ver = ''0.0.0'' then warnings w @ [warn_msg] else warnings w),
              files := (files w)(writer_path w \<mapsto> percent VERSION_PY ver),
              printed := printed w @ [''Set version to '' @ ver]\<rparr>)"
    using assms update_version_py_ok by simp
  have rp: "path_join (cwd w) (path_join (script_dir w) VERSION_FP) = writer_path w"
    using assms(1) by (simp add: reader_path_def)
  have pl: "plain = (\<lambda>c. \<not> is_linebreak c \<and> c \<noteq> quote)"
    by (rule ext) (simp add: plain_def)
  show ?thesis
    unfolding get_version_def u pl
    by (simp add: read_version_file_def read_text_def rp find_version_written)
qed

lemma build_env_same_path: "build_env w \<Longrightarrow> reader_path w = writer_path w"
  using path_join_absolute [of "cwd w"]
  by (simp add: build_env_def reader_path_def writer_path_def path_join_id)

lemma get_version_build_env:
  assumes "build_env w" "git_version w = Inr ver"
  shows "get_version w =
    (Inr (takeWhile plain ver),
     w\<lparr>warnings := (if ver = ''0.0.0'' then warnings w @ [warn_msg] else warnings w),
       files := (files w)(writer_path w \<mapsto> percent VERSION_PY ver),
       printed := printed w @ [''Set version to '' @ ver]\<rparr>)"
  using assms get_version_same_path [OF build_env_same_path]
  by (simp add: build_env_def)

lemma takeWhile_plain_id: "list_all plain ver \<Longrightarrow> takeWhile plain ver = ver"
  by (simp add: list_all_iff)

lemma percent_VERSION_PY_inj:
  "percent VERSION_PY v = percent VERSION_PY v' \<Longrightarrow> v = v'"
  by (simp add: percent_VERSION_PY)

lemma splitlines_written:
  assumes "list_all (\<lambda>c. \<not> is_linebreak c) ver"
  shows "splitlines (percent VERSION_PY ver) =
    [[], ''# This file is automatically generated from Git version tag by running setup.'',
     ''# Only distribution/installed packages contain this file.'', [],
     ''__version__ = '' @ [quote] @ ver @ [quote]]"
proof -
  have l2: "list_all (\<lambda>c. \<not> is_linebreak c)
      ''# This file is automatically generated from Git version tag by running setup.''"
    by (simp add: is_linebreak_def)
  have l3: "list_all (\<lambda>c. \<not> is_linebreak c)
      ''# Only distribution/installed packages contain this file.''"
    by (simp add: is_linebreak_def)
  have l5: "list_all (\<lambda>c. \<not> is_linebreak c) (''__version__ = '' @ [quote] @ ver @ [quote])"
    using assms by (simp add: is_linebreak_def quote_def)
  show ?thesis
    unfolding percent_VERSION_PY header_def
    using splitlines_line [of "[]"] splitlines_line [OF l2] splitlines_line [OF l3]
      splitlines_line [OF l5, of "[]"]
    by (simp add: splitlines_Nil)
qed

section \<open>Claims about BlasHelper and the extension module\<close>

lemma contains_no_blas_msg: "contains ''BLAS/LAPACK'' no_blas_msg"
  by (simp add: no_blas_msg_def)

lemma contains_no_blas_dir_msg: "contains ''BLAS/LAPACK'' no_blas_dir_msg"
  by (simp add: no_blas_dir_msg_def)

text \<open>
  Claim C3. When \<open>get_info\<close> keeps its contract (a result that is not falsy has the
  entries \<open>libraries\<close> and \<open>library_dirs\<close>), \<open>get_blas_lib_dir\<close> returns the pair of the two
  lists unchanged when the result is truthy and both lists are non-empty, and it raises an
  assertion error whose message names BLAS/LAPACK exactly when the result is falsy (absent
  or empty) or one of the two lists is empty.
\<close>

theorem get_blas_lib_dir_spec:
  assumes "truthy_info info \<Longrightarrow>
      getitem info ''libraries'' = Inr libs \<and> getitem info ''library_dirs'' = Inr ldirs"
  shows "(truthy_info info \<and> libs \<noteq> [] \<and> ldirs \<noteq> []
            \<longrightarrow> get_blas_lib_dir info = Inr (libs, ldirs))
       \<and> ((\<exists>m. get_blas_lib_dir info = Inl (AssertionError m) \<and> contains ''BLAS/LAPACK'' m)
            \<longleftrightarrow> (\<not> truthy_info info \<or> libs = [] \<or> ldirs = []))"
proof (cases "truthy_info info")
  case False
  then show ?thesis
    using contains_no_blas_msg by (simp add: get_blas_lib_dir_def)
next
  case True
  with assms have g: "getitem info ''libraries'' = Inr libs"
      "getitem info ''library_dirs'' = Inr ldirs" by simp_all
  show ?thesis
    using True contains_no_blas_msg contains_no_blas_dir_msg
    by (auto simp: get_blas_lib_dir_def g)
qed

theorem get_blas_lib_dir_spec_witness:
  "get_blas_lib_dir (Some [(''libraries'', [''openblas'']), (''library_dirs'', [''/usr/lib''])])
      = Inr ([''openblas''], [''/usr/lib''])
   \<and> (\<exists>m. get_blas_lib_dir (Some []) = Inl (AssertionError m) \<and> contains ''BLAS/LAPACK'' m)
   \<and> (\<exists>m. get_blas_lib_dir (Some [(''libraries'', [''openblas'']), (''library_dirs'', [])])
          = Inl (AssertionError m) \<and> contains ''BLAS/LAPACK'' m)"
proof -
  have 1: "get_blas_lib_dir (Some [(''libraries'', [''openblas'']), (''library_dirs'', [''/usr/lib''])])
      = Inr ([''openblas''], [''/usr/lib''])"
    using get_blas_lib_dir_spec
      [of "Some [(''libraries'', [''openblas'']), (''library_dirs'', [''/usr/lib''])]"
          "[''openblas'']" "[''/usr/lib'']"]
    by (simp add: truthy_info_def getitem_def)
  have 2: "\<exists>m. get_blas_lib_dir (Some []) = Inl (AssertionError m) \<and> contains ''BLAS/LAPACK'' m"
    using get_blas_lib_dir_spec [of "Some []" "[]" "[]"]
    by (simp add: truthy_info_def)
  have 3: "\<exists>m. get_blas_lib_dir (Some [(''libraries'', [''openblas'']), (''library_dirs'', [])])
          = Inl (AssertionError m) \<and> contains ''BLAS/LAPACK'' m"
    using get_blas_lib_dir_spec
      [of "Some [(''libraries'', [''openblas'']), (''library_dirs'', [])]" "[''openblas'']" "[]"]
    by (simp add: truthy_info_def getitem_def)
  from 1 2 3 show ?thesis by blast
qed

text \<open>
  Claim C5, amended. The compile flags of the extension are the three fixed flags
  \<open>-fopenmp\<close>, \<open>-O3\<close>, \<open>-std=c++14\<close> in that order when the variable
  \<open>PECOS_MANUAL_COMPILE_ARGS\<close> is unset or set to the empty string, and the three fixed
  flags followed by the comma-split entries of the variable, in their order, when it is
  set to a non-empty string.
\<close>

theorem compile_args_spec:
  "extra_compile_args (ext_module blas_lib blas_dir (manual_compile_args environ)) =
     (case environ ''PECOS_MANUAL_COMPILE_ARGS'' of
        None \<Rightarrow> [''-fopenmp'', ''-O3'', ''-std=c++14'']
      | Some v \<Rightarrow>
          if v = [] then [''-fopenmp'', ''-O3'', ''-std=c++14'']
          else [''-fopenmp'', ''-O3'', ''-std=c++14''] @ split_on CHR '','' v)"
  by (simp add: ext_module_def manual_compile_args_def split: option.splits)

theorem compile_args_spec_witness:
  "extra_compile_args (ext_module [''openblas''] [''/usr/lib'']
      (manual_compile_args (map_of [(''PECOS_MANUAL_COMPILE_ARGS'', ''-Werror,-Wall'')])))
     = [''-fopenmp'', ''-O3'', ''-std=c++14'', ''-Werror'', ''-Wall'']
   \<and> extra_compile_args (ext_module [''openblas''] [''/usr/lib''] (manual_compile_args (map_of [])))
     = [''-fopenmp'', ''-O3'', ''-std=c++14'']"
  using compile_args_spec [of "[''openblas'']" "[''/usr/lib'']"
      "map_of [(''PECOS_MANUAL_COMPILE_ARGS'', ''-Werror,-Wall'')]"]
    compile_args_spec [of "[''openblas'']" "[''/usr/lib'']" "map_of []"]
  by (simp add: split_on.simps)

text \<open>
  Claim C5 as stated fails where the variable is set to the empty string: splitting the
  empty string at commas gives one empty entry, and the compile flags do not have it.
\<close>

theorem compile_args_when_set_counterexample:
  "extra_compile_args (ext_module [''openblas''] [''/usr/lib'']
      (manual_compile_args (map_of [(''PECOS_MANUAL_COMPILE_ARGS'', [])])))
   \<noteq> [''-fopenmp'', ''-O3'', ''-std=c++14''] @ split_on CHR '','' []"
  by (simp add: ext_module_def manual_compile_args_def split_on.simps)

text \<open>
  Claim C8. For every list of library directories, of one directory or of several, the
  link flags of the extension contain the entry \<open>-Wl,-rpath,\<close> followed by the directories
  joined with a colon in their order; for one directory that is the directory itself.
\<close>

theorem rpath_spec:
  "''-Wl,-rpath,'' @ str_join '':'' blas_dir
      \<in> set (extra_link_args (ext_module blas_lib blas_dir mca))
   \<and> str_join '':'' [d] = d
   \<and> str_join '':'' (d # e # ds) = d @ '':'' @ str_join '':'' (e # ds)"
  by (simp add: ext_module_def)

theorem rpath_spec_witness:
  "''-Wl,-rpath,/usr/lib'' \<in> set (extra_link_args (ext_module [''openblas''] [''/usr/lib''] []))
   \<and> ''-Wl,-rpath,/opt/lib:/usr/lib''
       \<in> set (extra_link_args (ext_module [''openblas''] [''/opt/lib'', ''/usr/lib''] []))"
  using rpath_spec [of "[''/usr/lib'']" "[''openblas'']" "[]"]
    rpath_spec [of "[''/opt/lib'', ''/usr/lib'']" "[''openblas'']" "[]"]
  by simp

text \<open>
  Claim C9. When \<open>PECOS_MANUAL_COMPILE_ARGS\<close> is set to the empty string, the extra flags
  are the empty list, the same as when the variable is unset, and not the list of one
  empty string.
\<close>

theorem manual_compile_args_empty:
  assumes "environ ''PECOS_MANUAL_COMPILE_ARGS'' = Some []"
  shows "manual_compile_args environ = []
       \<and> manual_compile_args environ = manual_compile_args (environ(''PECOS_MANUAL_COMPILE_ARGS'' := None))
       \<and> manual_compile_args environ \<noteq> [[]]"
  using assms by (simp add: manual_compile_args_def)

theorem manual_compile_args_empty_witness:
  "map_of [(''PECOS_MANUAL_COMPILE_ARGS'', [])] ''PECOS_MANUAL_COMPILE_ARGS'' = Some []
   \<and> manual_compile_args (map_of [(''PECOS_MANUAL_COMPILE_ARGS'', [])]) = []"
  using manual_compile_args_empty [of "map_of [(''PECOS_MANUAL_COMPILE_ARGS'', [])]"]
  by simp

section \<open>Lemmas about the worlds of a run\<close>

lemma git_version_warnings [simp]: "git_version (w\<lparr>warnings := x\<rparr>) = git_version w"
  by (simp add: git_version_def isdir_def)

lemma git_version_files [simp]: "git_version (w\<lparr>files := x\<rparr>) = git_version w"
  by (simp add: git_version_def isdir_def)

lemma git_version_printed [simp]: "git_version (w\<lparr>printed := x\<rparr>) = git_version w"
  by (simp add: git_version_def isdir_def)

lemma update_version_py_twice:
  "fst (update_version_py (snd (update_version_py w))) = fst (update_version_py w)
   \<and> files (snd (update_version_py (snd (update_version_py w)))) = files (snd (update_version_py w))
   \<and> cwd (snd (update_version_py w)) = cwd w
   \<and> script_dir (snd (update_version_py w)) = script_dir w
   \<and> dirs (snd (update_version_py w)) = dirs w"
  by (auto simp: update_version_py_def write_text_def isfile_def Let_def split: sum.splits if_splits)

lemma read_version_file_frame:
  "cwd w' = cwd w \<Longrightarrow> script_dir w' = script_dir w \<Longrightarrow> dirs w' = dirs w \<Longrightarrow> files w' = files w
   \<Longrightarrow> read_version_file w' = read_version_file w"
  by (simp add: read_version_file_def read_text_def Let_def)

lemma get_version_via_update:
  "get_version w =
     (case fst (update_version_py w) of
        Inl e \<Rightarrow> (Inl e, snd (update_version_py w))
      | Inr u \<Rightarrow>
          (case read_version_file (snd (update_version_py w)) of
             Inl e \<Rightarrow> (Inl e, snd (update_version_py w))
           | Inr text \<Rightarrow> (find_version (splitlines text), snd (update_version_py w))))"
  by (cases "update_version_py w") (auto simp: get_version_def split: sum.splits)

lemma build_env_repo_world: "build_env (repo_world out)"
  by (simp add: build_env_def repo_world_def writer_path_def path_join_def startswith_def
      VERSION_FP_def dirname_def)

lemma build_env_sdist_world: "build_env sdist_world"
  by (simp add: build_env_def sdist_world_def writer_path_def path_join_def startswith_def
      VERSION_FP_def dirname_def)

lemma git_version_repo_world:
  "git_version (repo_world out) =
     (if re_match tag_pattern out then Inr (strip (drop 1 out))
      else Inl (AssertionError (''We use tags like v0.1.0, but got '' @ out)))"
  by (simp add: git_version_def repo_world_def isdir_def path_join_def startswith_def)

lemma writer_path_repo_world: "writer_path (repo_world out) = ''/repo/pecos/_version.py''"
  by (simp add: repo_world_def writer_path_def path_join_def startswith_def VERSION_FP_def)

lemma git_version_tag:
  assumes "isdir w ''.git''" "git_returncode w = 0"
    and "git_stdout w = CHR ''v'' # a @ ''.'' @ b @ ''.'' @ c @ sp"
    and "a \<noteq> []" "list_all is_digit a" "b \<noteq> []" "list_all is_digit b"
    and "c \<noteq> []" "list_all is_digit c" "list_all is_space sp"
  shows "git_version w = Inr (a @ ''.'' @ b @ ''.'' @ c)"
  using assms re_match_tag [of a b c sp] strip_version [of a c sp b]
  by (simp add: git_version_def)

lemma digit_is_plain: "is_digit x \<Longrightarrow> plain x"
  using digit_plain by (simp add: plain_def)

lemma dot_is_plain: "plain CHR ''.''"
  by (simp add: plain_def is_linebreak_def quote_def)

lemma plain_version:
  assumes "list_all is_digit a" "list_all is_digit b" "list_all is_digit c"
  shows "list_all plain (a @ ''.'' @ b @ ''.'' @ c)"
proof -
  have "\<And>x. list_all is_digit x \<Longrightarrow> list_all plain x"
    using digit_is_plain by (simp add: list_all_iff)
  with assms show ?thesis by (simp add: dot_is_plain)
qed

lemma build_env_writable:
  "build_env w \<Longrightarrow> dirname (writer_path w) \<in> dirs w \<and> writer_path w \<notin> dirs w"
  by (simp add: build_env_def)

lemma get_version_Inr_git_version:
  assumes "get_version w = (Inr v, w')"
  shows "\<exists>ver. git_version w = Inr ver"
proof (cases "git_version w")
  case (Inl e)
  then have "get_version w = (Inl e, w)"
    by (simp add: get_version_def update_version_py_def)
  with assms show ?thesis by simp
next
  case (Inr ver)
  then show ?thesis by blast
qed

lemma get_version_Inr_writable:
  assumes "get_version w = (Inr v, w')"
  shows "dirname (writer_path w) \<in> dirs w \<and> writer_path w \<notin> dirs w"
proof (rule ccontr)
  assume n: "\<not> (dirname (writer_path w) \<in> dirs w \<and> writer_path w \<notin> dirs w)"
  obtain ver where g: "git_version w = Inr ver"
    using get_version_Inr_git_version [OF assms] by blast
  from n g have "\<exists>e. fst (get_version w) = Inl e"
    by (auto simp: get_version_def update_version_py_def write_text_def writer_path_def Let_def)
  with assms show False by simp
qed

lemma get_version_repo_world:
  assumes "re_match tag_pattern out" "strip (drop 1 out) = ver" "takeWhile plain ver = v"
  shows "fst (get_version (repo_world out)) = Inr v
   \<and> files (snd (get_version (repo_world out))) ''/repo/pecos/_version.py''
       = Some (percent VERSION_PY ver)"
  using get_version_build_env [OF build_env_repo_world, of out ver] assms
  by (simp add: git_version_repo_world writer_path_repo_world)

lemma plain_123: "list_all plain ''1.2.3''"
  by (simp add: plain_def is_linebreak_def quote_def)

lemma update_version_py_Inr:
  assumes "update_version_py w = (Inr u, w')"
  shows "\<exists>ver. git_version w = Inr ver
      \<and> files w' = (files w)(writer_path w \<mapsto> percent VERSION_PY ver)
      \<and> cwd w' = cwd w \<and> script_dir w' = script_dir w \<and> dirs w' = dirs w"
  using assms
  by (auto simp: update_version_py_def write_text_def writer_path_def Let_def
      split: sum.splits if_splits)

lemma away_world_update:
  "update_version_py away_world =
     (Inr (), away_world\<lparr>warnings := [warn_msg],
        files := (files away_world)(''/build/pecos/_version.py'' \<mapsto> percent VERSION_PY ''0.0.0''),
        printed := [''Set version to 0.0.0'']\<rparr>)"
proof -
  have g: "git_version away_world = Inr ''0.0.0''"
    by (simp add: git_version_def away_world_def isdir_def path_join_def startswith_def)
  have p: "writer_path away_world = ''/build/pecos/_version.py''"
    by (simp add: away_world_def writer_path_def path_join_def startswith_def VERSION_FP_def)
  have d: "dirname (writer_path away_world) \<in> dirs away_world" "writer_path away_world \<notin> dirs away_world"
    unfolding p by (simp_all add: away_world_def dirname_def)
  show ?thesis
    using update_version_py_ok [OF g d] by (simp add: p) (simp add: away_world_def)
qed


lemma stale_file_parse:
  "find_version (splitlines (universal_newlines
      (''__version__ = '' @ [CHR 0x27] @ ''9.9.9'' @ [CHR 0x27, LF]))) = Inr ''9.9.9''"
  by (simp add: splitlines.simps split_on.simps is_linebreak_def LF_def CR_def quote_def
      startswith_def)


lemma away_path: "path_join (cwd away_world) (path_join (script_dir away_world) VERSION_FP)
   = ''/repo/pecos/_version.py''"
  by (simp add: away_world_def path_join_def startswith_def VERSION_FP_def)

lemma away_read:
  "read_version_file (snd (update_version_py away_world))
      = Inr (universal_newlines (''__version__ = '' @ [CHR 0x27] @ ''9.9.9'' @ [CHR 0x27, LF]))"
proof -
  define w' where "w' = snd (update_version_py away_world)"
  have c: "cwd w' = cwd away_world" "script_dir w' = script_dir away_world"
    by (simp_all add: w'_def away_world_update)
  have f: "files w' ''/repo/pecos/_version.py''
      = Some (''__version__ = '' @ [CHR 0x27] @ ''9.9.9'' @ [CHR 0x27, LF])"
    unfolding w'_def away_world_update by (simp add: away_world_def)
  show ?thesis
    unfolding w'_def [symmetric]
    by (simp add: read_version_file_def read_text_def c away_path f)
qed

lemma away_world_get_version:
  "fst (get_version away_world) = Inr ''9.9.9''
   \<and> files (snd (get_version away_world)) ''/build/pecos/_version.py''
       = Some (percent VERSION_PY ''0.0.0'')"
proof -
  have u: "fst (update_version_py away_world) = Inr ()"
    by (simp add: away_world_update)
  have g: "get_version away_world =
      (find_version (splitlines (universal_newlines
          (''__version__ = '' @ [CHR 0x27] @ ''9.9.9'' @ [CHR 0x27, LF]))),
       snd (update_version_py away_world))"
    unfolding get_version_via_update [of away_world] away_read u by simp
  have 1: "fst (get_version away_world) = Inr ''9.9.9''"
    unfolding g stale_file_parse by simp
  have 2: "files (snd (get_version away_world)) ''/build/pecos/_version.py''
       = Some (percent VERSION_PY ''0.0.0'')"
    unfolding g by (simp add: away_world_update)
  from 1 2 show ?thesis by simp
qed

lemma can_write_iff:
  "can_write w \<longleftrightarrow> dirname (writer_path w) \<in> dirs w \<and> writer_path w \<notin> dirs w"
  by (simp add: can_write_def write_text_def writer_path_def Let_def)

lemma get_version_stale:
  assumes "update_version_py w = (Inr (), w')" "reader_path w \<noteq> writer_path w"
    and "files w (reader_path w) = Some text"
  shows "get_version w = (find_version (splitlines (universal_newlines text)), w')"
proof -
  obtain ver where v: "files w' = (files w)(writer_path w \<mapsto> percent VERSION_PY ver)"
      "cwd w' = cwd w" "script_dir w' = script_dir w" "dirs w' = dirs w"
    using update_version_py_Inr [OF assms(1)] by blast
  have "files w' (reader_path w) = Some text"
    using v(1) assms(2,3) by simp
  then show ?thesis
    using assms(1) v(2-4)
    by (simp add: get_version_def read_version_file_def read_text_def reader_path_def Let_def)
qed

lemma get_version_no_directory:
  assumes "git_version w = Inr ver" "dirname (writer_path w) \<notin> dirs w"
    and "files w (dirname (writer_path w)) = None"
  shows "fst (get_version w) = Inl (FileNotFoundError VERSION_FP)"
  using assms
  by (simp add: get_version_def update_version_py_def write_text_def writer_path_def Let_def)

lemma away_git_world_get_version:
  "fst (get_version away_git_world) = Inr ''9.9.9''"
proof -
  have g: "git_version away_git_world = Inr ''1.2.3''"
    by (simp add: git_version_def away_git_world_def isdir_def path_join_def startswith_def
        tag_pattern_def is_digit_def LF_def strip_def is_space_def)
  have p: "writer_path away_git_world = ''/build/pecos/_version.py''"
    by (simp add: away_git_world_def writer_path_def path_join_def startswith_def VERSION_FP_def)
  have r: "reader_path away_git_world = ''/repo/pecos/_version.py''"
    by (simp add: away_git_world_def reader_path_def path_join_def startswith_def VERSION_FP_def)
  have d: "dirname (writer_path away_git_world) \<in> dirs away_git_world"
      "writer_path away_git_world \<notin> dirs away_git_world"
    unfolding p by (simp_all add: away_git_world_def dirname_def)
  have ne: "reader_path away_git_world \<noteq> writer_path away_git_world"
    unfolding p r by simp
  have f: "files away_git_world (reader_path away_git_world)
      = Some (''__version__ = '' @ [CHR 0x27] @ ''9.9.9'' @ [CHR 0x27, LF])"
    unfolding r by (simp add: away_git_world_def)
  show ?thesis
    unfolding get_version_stale [OF update_version_py_ok [OF g d] ne f] stale_file_parse
    by simp
qed

lemma bare_repo_world_get_version:
  "fst (get_version bare_repo_world) = Inl (FileNotFoundError ''pecos/_version.py'')"
proof -
  have g: "git_version bare_repo_world = Inr ''1.2.3''"
    by (simp add: git_version_def bare_repo_world_def isdir_def path_join_def startswith_def
        tag_pattern_def is_digit_def LF_def strip_def is_space_def)
  have p: "writer_path bare_repo_world = ''/repo/pecos/_version.py''"
    by (simp add: bare_repo_world_def writer_path_def path_join_def startswith_def VERSION_FP_def)
  have d: "dirname (writer_path bare_repo_world) \<notin> dirs bare_repo_world"
      "files bare_repo_world (dirname (writer_path bare_repo_world)) = None"
    unfolding p by (simp_all add: bare_repo_world_def dirname_def)
  show ?thesis
    using get_version_no_directory [OF g d] by (simp add: VERSION_FP_def)
qed

lemma bare_sdist_world_get_version:
  "fst (get_version bare_sdist_world) = Inl (FileNotFoundError ''pecos/_version.py'')"
proof -
  have g: "git_version bare_sdist_world = Inr ''0.0.0''"
    by (simp add: git_version_def bare_sdist_world_def isdir_def path_join_def startswith_def)
  have p: "writer_path bare_sdist_world = ''/sdist/pecos/_version.py''"
    by (simp add: bare_sdist_world_def writer_path_def path_join_def startswith_def VERSION_FP_def)
  have d: "dirname (writer_path bare_sdist_world) \<notin> dirs bare_sdist_world"
      "files bare_sdist_world (dirname (writer_path bare_sdist_world)) = None"
    unfolding p by (simp_all add: bare_sdist_world_def dirname_def)
  show ?thesis
    using get_version_no_directory [OF g d] by (simp add: VERSION_FP_def)
qed

lemma repo_world_env:
  "reader_path (repo_world out) = writer_path (repo_world out)" "can_write (repo_world out)"
  using build_env_same_path [OF build_env_repo_world]
    build_env_writable [OF build_env_repo_world] can_write_iff
  by simp_all

lemma sdist_world_env:
  "reader_path sdist_world = writer_path sdist_world" "can_write sdist_world"
  using build_env_same_path [OF build_env_sdist_world]
    build_env_writable [OF build_env_sdist_world] can_write_iff
  by simp_all

section \<open>Claims about VersionHelper\<close>

text \<open>
  Claim C1, amended. When the working directory is the directory of the setup script (the
  reader opens the file the writer wrote), \<open>pecos/_version.py\<close> can be opened for writing
  there, \<open>.git\<close> exists and \<open>git describe\<close> succeeds, then for every tag of the form
  \<open>v<int>.<int>.<int>\<close> (printed with trailing whitespace, the newline of \<open>git describe\<close>)
  \<open>get_version\<close> returns the tag without its leading \<open>v\<close> and with the surrounding
  whitespace stripped, and the generated file has the line \<open>__version__ = "<that string>"\<close>.
\<close>

theorem get_version_of_tag:
  assumes "reader_path w = writer_path w" "can_write w"
    and "isdir w ''.git''" "git_returncode w = 0"
    and "git_stdout w = CHR ''v'' # a @ ''.'' @ b @ ''.'' @ c @ sp"
    and "a \<noteq> []" "list_all is_digit a" "b \<noteq> []" "list_all is_digit b"
    and "c \<noteq> []" "list_all is_digit c" "list_all is_space sp"
  shows "fst (get_version w) = Inr (a @ ''.'' @ b @ ''.'' @ c)
       \<and> strip (drop (length ''v'') (git_stdout w)) = a @ ''.'' @ b @ ''.'' @ c
       \<and> (\<exists>text. files (snd (get_version w)) (writer_path w) = Some text
            \<and> ''__version__ = '' @ [quote] @ (a @ ''.'' @ b @ ''.'' @ c) @ [quote]
                \<in> set (splitlines text))"
proof -
  let ?ver = "a @ ''.'' @ b @ ''.'' @ c"
  have g: "git_version w = Inr ?ver" using assms(3-) by (rule git_version_tag)
  have wr: "dirname (writer_path w) \<in> dirs w" "writer_path w \<notin> dirs w"
    using assms(2) can_write_iff by simp_all
  note gv = get_version_same_path [OF assms(1) g wr]
  have p: "list_all plain ?ver" using assms by (intro plain_version)
  then have nl: "list_all (\<lambda>c. \<not> is_linebreak c) ?ver"
    by (simp add: list_all_iff plain_def)
  have 1: "fst (get_version w) = Inr ?ver"
    using gv takeWhile_plain_id [OF p] by simp
  have 2: "strip (drop (length ''v'') (git_stdout w)) = ?ver"
    using assms strip_version [of a c sp b] by simp
  have 3: "files (snd (get_version w)) (writer_path w) = Some (percent VERSION_PY ?ver)"
    using gv by simp
  have 4: "''__version__ = '' @ [quote] @ ?ver @ [quote] \<in> set (splitlines (percent VERSION_PY ?ver))"
    using splitlines_written [OF nl] by simp
  from 1 2 3 4 show ?thesis by blast
qed

theorem get_version_of_tag_witness:
  "fst (get_version (repo_world (''v1.2.3'' @ [LF]))) = Inr ''1.2.3''
   \<and> (\<exists>text. files (snd (get_version (repo_world (''v1.2.3'' @ [LF])))) ''/repo/pecos/_version.py''
         = Some text
       \<and> ''__version__ = '' @ [quote] @ ''1.2.3'' @ [quote] \<in> set (splitlines text))"
proof -
  have h: "isdir (repo_world (''v1.2.3'' @ [LF])) ''.git''"
    "git_returncode (repo_world (''v1.2.3'' @ [LF])) = 0"
    "git_stdout (repo_world (''v1.2.3'' @ [LF])) = CHR ''v'' # ''1'' @ ''.'' @ ''2'' @ ''.'' @ ''3'' @ [LF]"
    by (simp_all add: repo_world_def isdir_def path_join_def startswith_def)
  have d: "''1'' \<noteq> []" "list_all is_digit ''1''" "''2'' \<noteq> []" "list_all is_digit ''2''"
    "''3'' \<noteq> []" "list_all is_digit ''3''" "list_all is_space [LF]"
    by (simp_all add: is_digit_def is_space_def LF_def)
  show ?thesis
    using get_version_of_tag [OF repo_world_env h d]
    by (simp add: writer_path_repo_world)
qed

text \<open>
  Claim C1 as stated fails for the tag \<open>v1.2.3\<close> in two ways: in a build started outside
  the directory of the setup script \<open>get_version\<close> returns the \<open>9.9.9\<close> of the file of an
  earlier run, and in a checkout without the directory \<open>pecos\<close> it raises
  \<open>FileNotFoundError\<close>.
\<close>

theorem get_version_of_tag_counterexample:
  "isdir away_git_world ''.git'' \<and> git_returncode away_git_world = 0
   \<and> git_stdout away_git_world = ''v1.2.3'' @ [LF]
   \<and> fst (get_version away_git_world) = Inr ''9.9.9''
   \<and> isdir bare_repo_world ''.git'' \<and> git_returncode bare_repo_world = 0
   \<and> git_stdout bare_repo_world = ''v1.2.3'' @ [LF]
   \<and> fst (get_version bare_repo_world) = Inl (FileNotFoundError ''pecos/_version.py'')"
  using away_git_world_get_version bare_repo_world_get_version
  by (simp add: away_git_world_def bare_repo_world_def isdir_def path_join_def startswith_def)

text \<open>
  Claim C6, amended. When the working directory has no \<open>.git\<close> directory, is the directory
  of the setup script (the reader opens the file the writer wrote) and \<open>pecos/_version.py\<close>
  can be opened for writing there, \<open>get_version\<close> returns \<open>0.0.0\<close> and raises nothing; it
  issues one warning and writes the dummy version to the generated file.
\<close>

theorem get_version_no_git:
  assumes "reader_path w = writer_path w" "can_write w" "\<not> isdir w ''.git''"
  shows "get_version w =
      (Inr ''0.0.0'',
       w\<lparr>warnings := warnings w @ [warn_msg],
         files := (files w)(writer_path w \<mapsto> percent VERSION_PY ''0.0.0''),
         printed := printed w @ [''Set version to 0.0.0'']\<rparr>)"
proof -
  have g: "git_version w = Inr ''0.0.0''" using assms(3) by (simp add: git_version_def)
  have wr: "dirname (writer_path w) \<in> dirs w" "writer_path w \<notin> dirs w"
    using assms(2) can_write_iff by simp_all
  have "takeWhile plain ''0.0.0'' = ''0.0.0''"
    by (simp add: plain_def is_linebreak_def quote_def)
  then show ?thesis using get_version_same_path [OF assms(1) g wr] by simp
qed

theorem get_version_no_git_witness:
  "fst (get_version sdist_world) = Inr ''0.0.0''
   \<and> warnings (snd (get_version sdist_world)) = [warn_msg]"
proof -
  have "\<not> isdir sdist_world ''.git''"
    by (simp add: sdist_world_def isdir_def path_join_def startswith_def)
  from get_version_no_git [OF sdist_world_env this] show ?thesis
    by (simp add: sdist_world_def)
qed

text \<open>
  Claim C6 as stated fails in two ways, each without a \<open>.git\<close> directory: in a build
  started outside the directory of the setup script \<open>get_version\<close> returns the \<open>9.9.9\<close> of
  the file of an earlier run, and in a tree without the directory \<open>pecos\<close> it raises
  \<open>FileNotFoundError\<close>.
\<close>

theorem get_version_no_git_counterexample:
  "\<not> isdir away_world ''.git'' \<and> fst (get_version away_world) = Inr ''9.9.9''
   \<and> \<not> isdir bare_sdist_world ''.git''
   \<and> fst (get_version bare_sdist_world) = Inl (FileNotFoundError ''pecos/_version.py'')"
  using away_world_get_version bare_sdist_world_get_version
  by (simp add: away_world_def bare_sdist_world_def isdir_def path_join_def startswith_def)

text \<open>
  Claim C4, amended. For every run of \<open>get_version\<close> that completes without error, in which
  the path the reader opens is the path the writer wrote (the working directory is the
  directory of the setup script) and the version written has no double quote and no
  line-break character, the string returned is the version written to the generated file in
  that run.
\<close>

theorem get_version_round_trip:
  assumes "get_version w = (Inr v, w')" "reader_path w = writer_path w"
    and "files w' (writer_path w) = Some (percent VERSION_PY ver)" "list_all plain ver"
  shows "v = ver"
proof -
  obtain ver' where g: "git_version w = Inr ver'"
    using get_version_Inr_git_version [OF assms(1)] by blast
  have wr: "dirname (writer_path w) \<in> dirs w" "writer_path w \<notin> dirs w"
    using get_version_Inr_writable [OF assms(1)] by simp_all
  note gv = get_version_same_path [OF assms(2) g wr]
  from gv assms(1) have v: "v = takeWhile plain ver'" by simp
  from gv assms(1) have "files w' (writer_path w) = Some (percent VERSION_PY ver')" by auto
  with assms(3) have "ver' = ver" using percent_VERSION_PY_inj by simp
  with v assms(4) show ?thesis by (simp add: takeWhile_plain_id)
qed

theorem get_version_round_trip_witness:
  "fst (get_version (repo_world (''v1.2.3'' @ [LF]))) = Inr ''1.2.3''
   \<and> files (snd (get_version (repo_world (''v1.2.3'' @ [LF])))) ''/repo/pecos/_version.py''
       = Some (percent VERSION_PY ''1.2.3'')"
proof -
  let ?w = "repo_world (''v1.2.3'' @ [LF])"
  have m: "re_match tag_pattern (''v1.2.3'' @ [LF])"
    by (simp add: tag_pattern_def is_digit_def LF_def)
  have s: "strip (drop 1 (''v1.2.3'' @ [LF])) = ''1.2.3''"
    by (simp add: strip_def is_space_def LF_def)
  have t: "takeWhile plain ''1.2.3'' = ''1.2.3''"
    using plain_123 by (rule takeWhile_plain_id)
  have f: "files (snd (get_version ?w)) (writer_path ?w) = Some (percent VERSION_PY ''1.2.3'')"
    using get_version_repo_world [OF m s t] by (simp add: writer_path_repo_world)
  obtain v w' where r: "get_version ?w = (Inr v, w')"
    using get_version_repo_world [OF m s t] by (cases "get_version ?w") auto
  have "v = ''1.2.3''"
    using get_version_round_trip [OF r build_env_same_path [OF build_env_repo_world] _ plain_123]
      f r by simp
  with r f show ?thesis by (simp add: writer_path_repo_world)
qed

text \<open>
  Claim C4 as stated fails in two ways. For the tag \<open>v1.0.0"rc\<close> the run completes, the file
  holds the version \<open>1.0.0"rc\<close> and the string returned is \<open>1.0.0\<close>. For a build started
  outside the directory of the setup script the run completes, the file written holds
  \<open>0.0.0\<close> and the string returned is the \<open>9.9.9\<close> of the file of an earlier run.
\<close>

theorem get_version_round_trip_counterexample:
  "fst (get_version (repo_world (''v1.0.0'' @ [quote] @ ''rc'' @ [LF]))) = Inr ''1.0.0''
   \<and> files (snd (get_version (repo_world (''v1.0.0'' @ [quote] @ ''rc'' @ [LF]))))
         ''/repo/pecos/_version.py''
       = Some (percent VERSION_PY (''1.0.0'' @ [quote] @ ''rc''))
   \<and> ''1.0.0'' \<noteq> ''1.0.0'' @ [quote] @ ''rc''
   \<and> fst (get_version away_world) = Inr ''9.9.9''
   \<and> files (snd (get_version away_world)) ''/build/pecos/_version.py''
       = Some (percent VERSION_PY ''0.0.0'')"
proof -
  have m: "re_match tag_pattern (''v1.0.0'' @ [quote] @ ''rc'' @ [LF])"
    by (simp add: tag_pattern_def is_digit_def LF_def quote_def)
  have s: "strip (drop 1 (''v1.0.0'' @ [quote] @ ''rc'' @ [LF])) = ''1.0.0'' @ [quote] @ ''rc''"
    by (simp add: strip_def is_space_def LF_def quote_def)
  have t: "takeWhile plain (''1.0.0'' @ [quote] @ ''rc'') = ''1.0.0''"
    by (simp add: plain_def is_linebreak_def quote_def)
  show ?thesis
    using get_version_repo_world [OF m s t] away_world_get_version by simp
qed

text \<open>
  Claim C2. The tag \<open>v1x2y3\<close> is not of the form \<open>v<int>.<int>.<int>\<close>, yet the unescaped dots
  of the pattern at line 47 accept it: no assertion error is raised, and the version
  \<open>1x2y3\<close> is written and returned.
\<close>

theorem malformed_tag_accepted:
  "fst (get_version (repo_world (''v1x2y3'' @ [LF]))) = Inr ''1x2y3''
   \<and> files (snd (get_version (repo_world (''v1x2y3'' @ [LF])))) ''/repo/pecos/_version.py''
       = Some (percent VERSION_PY ''1x2y3'')"
proof -
  have m: "re_match tag_pattern (''v1x2y3'' @ [LF])"
    by (simp add: tag_pattern_def is_digit_def LF_def)
  have s: "strip (drop 1 (''v1x2y3'' @ [LF])) = ''1x2y3''"
    by (simp add: strip_def is_space_def LF_def)
  have t: "takeWhile plain ''1x2y3'' = ''1x2y3''"
    by (simp add: plain_def is_linebreak_def quote_def)
  show ?thesis
    using get_version_repo_world [OF m s t] by simp
qed

text \<open>
  What the assertion does guarantee: when the output of \<open>git describe\<close> does not match the
  pattern as the code has it, \<open>get_version\<close> raises the assertion error and leaves the world
  as it was, so no file is written.
\<close>

theorem assertion_before_write:
  assumes "isdir w ''.git''" "git_returncode w = 0" "\<not> re_match tag_pattern (git_stdout w)"
  shows "get_version w
     = (Inl (AssertionError (''We use tags like v0.1.0, but got '' @ git_stdout w)), w)"
  using assms by (simp add: get_version_def update_version_py_def git_version_def)

theorem assertion_before_write_witness:
  "get_version (repo_world (''release-1'' @ [LF]))
     = (Inl (AssertionError (''We use tags like v0.1.0, but got release-1'' @ [LF])),
        repo_world (''release-1'' @ [LF]))"
proof -
  have h: "isdir (repo_world (''release-1'' @ [LF])) ''.git''"
    "git_returncode (repo_world (''release-1'' @ [LF])) = 0"
    by (simp_all add: repo_world_def isdir_def path_join_def startswith_def)
  have n: "\<not> re_match tag_pattern (git_stdout (repo_world (''release-1'' @ [LF])))"
    by (simp add: repo_world_def tag_pattern_def)
  from assertion_before_write [OF h n] show ?thesis by (simp add: repo_world_def)
qed

text \<open>
  Claim C7. A second call of \<open>get_version\<close>, made in the world the first call left (the
  calls change neither the directories nor what \<open>git describe\<close> answers), has the outcome
  of the first call, the same string when it returned one, and leaves the files as the
  first call left them.
\<close>

theorem get_version_twice:
  "fst (get_version (snd (get_version w))) = fst (get_version w)
   \<and> files (snd (get_version (snd (get_version w)))) = files (snd (get_version w))"
proof -
  define w1 where "w1 = snd (update_version_py w)"
  define w2 where "w2 = snd (update_version_py w1)"
  have s1: "snd (get_version w) = w1"
    by (simp add: get_version_via_update w1_def split: sum.splits)
  have s2: "snd (get_version w1) = w2"
    by (simp add: get_version_via_update w2_def split: sum.splits)
  have t: "fst (update_version_py w1) = fst (update_version_py w)" "files w2 = files w1"
    "cwd w1 = cwd w" "script_dir w1 = script_dir w" "dirs w1 = dirs w"
    using update_version_py_twice [of w] by (simp_all add: w1_def w2_def)
  have t2: "cwd w2 = cwd w1" "script_dir w2 = script_dir w1" "dirs w2 = dirs w1"
    using update_version_py_twice [of w1] by (simp_all add: w2_def)
  have r: "read_version_file w2 = read_version_file w1"
    using t t2 by (intro read_version_file_frame) simp_all
  have "fst (get_version w1) = fst (get_version w)"
    using t(1) r
    by (simp add: get_version_via_update [of w] get_version_via_update [of w1]
        w1_def [symmetric] w2_def [symmetric] split: sum.splits)
  then show ?thesis using s1 s2 t(2) by simp
qed

theorem get_version_twice_witness:
  "fst (get_version (snd (get_version (repo_world (''v1.2.3'' @ [LF]))))) = Inr ''1.2.3''
   \<and> fst (get_version (repo_world (''v1.2.3'' @ [LF]))) = Inr ''1.2.3''
   \<and> files (snd (get_version (snd (get_version (repo_world (''v1.2.3'' @ [LF]))))))
        ''/repo/pecos/_version.py'' = Some (percent VERSION_PY ''1.2.3'')"
proof -
  have m: "re_match tag_pattern (''v1.2.3'' @ [LF])"
    by (simp add: tag_pattern_def is_digit_def LF_def)
  have s: "strip (drop 1 (''v1.2.3'' @ [LF])) = ''1.2.3''"
    by (simp add: strip_def is_space_def LF_def)
  have t: "takeWhile plain ''1.2.3'' = ''1.2.3''"
    using plain_123 by (rule takeWhile_plain_id)
  show ?thesis
    using get_version_twice [of "repo_world (''v1.2.3'' @ [LF])"]
      get_version_repo_world [OF m s t]
    by simp
qed



end
